theory Spec2Isabelle
  imports Complex_Main "HOL-Library.Sublist"
begin

section \<open>Data model (main.go, lines 20-71)\<close>

text \<open>
  Go strings are byte sequences, so a string is a \<^typ>\<open>string\<close> holding the UTF-8 bytes.
  Go's \<open>int\<close> is modelled by \<^typ>\<open>int\<close>: the program only compares and prints the
  integers it holds (ports, thresholds, day counts), it never does arithmetic on them.
  A \<open>time.Time\<close> is the number of nanoseconds since the zero \<open>time.Time\<close>, so the zero
  value of a time field is \<open>0\<close>.
\<close>

type_synonym go_time = int

record Site =
  url :: string
  port :: int
  name :: string

record AlertConfig =
  WarningDays :: int
  CriticalDays :: int

record DiscordConfig =
  Enabled :: bool
  WebhookURL :: string
  NotifyOn :: "string list"

text \<open>The \<open>Email\<close> and \<open>Logging\<close> sections of \<open>Config\<close> are read by \<open>sendEmail\<close> and
  \<open>setupLogger\<close> only and are left out.\<close>

record Config =
  Sites :: "Site list"
  Alert :: AlertConfig
  Discord :: DiscordConfig

record CertInfo =
  SiteName :: string
  URL :: string
  Port :: int
  Issuer :: string
  Subject :: string
  NotBefore :: go_time
  NotAfter :: go_time
  DaysRemaining :: int
  Status :: string
  ErrorMessage :: string

text \<open>The zero value of the struct: what a composite literal leaves in the fields it does
  not name.\<close>

definition CertInfo_zero :: CertInfo where
  "CertInfo_zero =
     \<lparr>SiteName = [], URL = [], Port = 0, Issuer = [], Subject = [], NotBefore = 0,
      NotAfter = 0, DaysRemaining = 0, Status = [], ErrorMessage = []\<rparr>"

text \<open>The fields of an \<open>x509.Certificate\<close> that \<open>checkCertificate\<close> reads.\<close>

record Certificate =
  IssuerOrganization :: "string list"
  IssuerCommonName :: string
  SubjectCommonName :: string
  CertNotBefore :: go_time
  CertNotAfter :: go_time

section \<open>Formatting helpers (\<open>fmt.Sprintf\<close>, \<open>strings.Join\<close>)\<close>

fun show_nat :: "nat \<Rightarrow> string" where
  "show_nat n =
     (if n < 10 then [''0123456789'' ! n]
      else show_nat (n div 10) @ [''0123456789'' ! (n mod 10)])"

text \<open>The verb \<open>%d\<close>.\<close>

definition show_int :: "int \<Rightarrow> string" where
  "show_int i = (if i < 0 then ''-'' @ show_nat (nat (- i)) else show_nat (nat i))"

fun strings_Join :: "string list \<Rightarrow> string \<Rightarrow> string" where
  "strings_Join [] sep = []"
| "strings_Join [x] sep = x"
| "strings_Join (x # y # ys) sep = x @ sep @ strings_Join (y # ys) sep"

section \<open>Durations and float64 arithmetic (\<open>time.Time.Sub\<close>, \<open>Duration.Hours\<close>)\<close>

text \<open>
  A \<open>time.Duration\<close> is an \<open>int64\<close> count of nanoseconds. \<open>t.Sub(u)\<close> is \<open>t - u\<close>,
  saturated at the largest and smallest duration.
\<close>

definition maxDuration :: int where
  "maxDuration = 2 ^ 63 - 1"

definition minDuration :: int where
  "minDuration = - (2 ^ 63)"

definition time_Sub :: "go_time \<Rightarrow> go_time \<Rightarrow> int" where
  "time_Sub t u =
     (let d = t - u in
      if d < minDuration then minDuration else if maxDuration < d then maxDuration else d)"

definition Hour :: int where
  "Hour = 60 * 60 * 1000000000"

text \<open>Go's integer \<open>/\<close> and \<open>%\<close> truncate toward zero.\<close>

definition go_quo :: "int \<Rightarrow> int \<Rightarrow> int" where
  "go_quo a b = sgn a * sgn b * (\<bar>a\<bar> div \<bar>b\<bar>)"

definition go_rem :: "int \<Rightarrow> int \<Rightarrow> int" where
  "go_rem a b = a - b * go_quo a b"

text \<open>
  A \<open>float64\<close> operation returns the exact result rounded to the nearest number with a
  53-bit significand, ties to even. \<open>float64 x\<close> is that rounding of the rational \<open>x\<close>
  (subnormal spacing below \<open>2 powi (-1022)\<close>; overflow to infinity, at \<open>2 ^ 1024\<close>, is not
  modelled: every value rounded below is smaller than \<open>2 ^ 23\<close> in magnitude).
\<close>

function floor_log2 :: "int \<Rightarrow> nat" where
  "floor_log2 n = (if n < 2 then 0 else Suc (floor_log2 (n div 2)))"
  by pat_completeness auto
termination
  by (relation "measure nat") auto

declare floor_log2.simps [simp del]

definition ceil_log2 :: "int \<Rightarrow> nat" where
  "ceil_log2 n = (if n \<le> 1 then 0 else Suc (floor_log2 (n - 1)))"

text \<open>The exponent \<open>e\<close> with \<open>2 powi e \<le> \<bar>x\<bar> < 2 powi (e + 1)\<close>, for \<open>x \<noteq> 0\<close>.\<close>

definition binary_exponent :: "rat \<Rightarrow> int" where
  "binary_exponent x =
     (let a = \<bar>x\<bar> in
      if 1 \<le> a then int (floor_log2 \<lfloor>a\<rfloor>) else - int (ceil_log2 \<lceil>1 / a\<rceil>))"

definition round_half_even :: "rat \<Rightarrow> int" where
  "round_half_even x =
     (let n = \<lfloor>x\<rfloor>; r = x - of_int n in
      if r < 1 / 2 then n else if 1 / 2 < r then n + 1 else if even n then n else n + 1)"

definition ulp :: "rat \<Rightarrow> rat" where
  "ulp x = 2 powi (max (binary_exponent x) (- 1022) - 52)"

definition float64 :: "rat \<Rightarrow> rat" where
  "float64 x = (if x = 0 then 0 else of_int (round_half_even (x / ulp x)) * ulp x)"

text \<open>
  \<open>func (d Duration) Hours() float64\<close> of package \<open>time\<close>:
  \<^verbatim>\<open>hour := d / Hour; nsec := d % Hour; return float64(hour) + float64(nsec)/(60*60*1e9)\<close>
\<close>

definition Hours :: "int \<Rightarrow> rat" where
  "Hours d =
     (let hour = go_quo d Hour; nsec = go_rem d Hour in
      float64 (float64 (of_int hour) + float64 (float64 (of_int nsec) / 3600000000000)))"

text \<open>The conversion \<open>int(f)\<close> of a \<open>float64\<close> discards the fraction.\<close>

definition go_int :: "rat \<Rightarrow> int" where
  "go_int f = (if 0 \<le> f then \<lfloor>f\<rfloor> else \<lceil>f\<rceil>)"

text \<open>main.go, line 239: \<^verbatim>\<open>daysRemaining := int(cert.NotAfter.Sub(now).Hours() / 24)\<close>\<close>

definition daysRemaining :: "go_time \<Rightarrow> go_time \<Rightarrow> int" where
  "daysRemaining notAfter now = go_int (float64 (Hours (time_Sub notAfter now) / 24))"

section \<open>The status of a day count (main.go, lines 241-251)\<close>

definition classify :: "int \<Rightarrow> int \<Rightarrow> int \<Rightarrow> string" where
  "classify days warningDays criticalDays =
     (if days < 0 then ''CRITICAL''
      else if days \<le> criticalDays then ''CRITICAL''
      else if days \<le> warningDays then ''WARNING''
      else ''OK'')"

text \<open>The severity order \<open>OK < WARNING < CRITICAL\<close> of the specification.\<close>

definition severity :: "string \<Rightarrow> nat" where
  "severity s = (if s = ''CRITICAL'' then 2 else if s = ''WARNING'' then 1 else 0)"

section \<open>The per-site probe (main.go, lines 190-274)\<close>

text \<open>
  What the world answers to one probe: \<open>tls.DialWithDialer\<close> at an address with a server
  name either fails with an error (its text, as \<open>%v\<close> prints it) or gives a connection with
  the peer's certificates; \<open>time.Now()\<close> gives the instant of the check. Log output is not
  modelled.
\<close>

datatype dial_result = DialError string | Connected "Certificate list"

record probe_env =
  tls_dial :: "string \<Rightarrow> string \<Rightarrow> dial_result"
  time_now :: go_time

text \<open>The UTF-8 bytes of the Japanese text before \<open>%v\<close> in the message of a failed dial (main.go, line 211).\<close>

definition msg_fetch_failed :: string where
  "msg_fetch_failed =
     [CHR 0xE8, CHR 0xA8, CHR 0xBC, CHR 0xE6, CHR 0x98, CHR 0x8E, CHR 0xE6, CHR 0x9B,
       CHR 0xB8, CHR 0xE3, CHR 0x81, CHR 0xAE, CHR 0xE5, CHR 0x8F, CHR 0x96, CHR 0xE5,
       CHR 0xBE, CHR 0x97, CHR 0xE3, CHR 0x81, CHR 0xAB, CHR 0xE5, CHR 0xA4, CHR 0xB1,
       CHR 0xE6, CHR 0x95, CHR 0x97] @ '': ''"

text \<open>The UTF-8 bytes of the message for a connection without certificates (main.go, line 231).\<close>

definition msg_no_certificate :: string where
  "msg_no_certificate =
     [CHR 0xE8, CHR 0xA8, CHR 0xBC, CHR 0xE6, CHR 0x98, CHR 0x8E, CHR 0xE6, CHR 0x9B,
       CHR 0xB8, CHR 0xE3, CHR 0x81, CHR 0x8C, CHR 0xE8, CHR 0xA6, CHR 0x8B, CHR 0xE3,
       CHR 0x81, CHR 0xA4, CHR 0xE3, CHR 0x81, CHR 0x8B, CHR 0xE3, CHR 0x82, CHR 0x8A,
       CHR 0xE3, CHR 0x81, CHR 0xBE, CHR 0xE3, CHR 0x81, CHR 0x9B, CHR 0xE3, CHR 0x82,
       CHR 0x93]"

definition checkCertificate :: "Config \<Rightarrow> Site \<Rightarrow> probe_env \<Rightarrow> CertInfo" where
  "checkCertificate config site0 env =
     (let site1 = (if port site0 = 0 then site0\<lparr>port := 443\<rparr> else site0);
          site = (if name site1 = [] then site1\<lparr>name := url site1\<rparr> else site1);
          address = url site @ '':'' @ show_int (port site)
      in case tls_dial env address (url site) of
           DialError err \<Rightarrow>
             CertInfo_zero\<lparr>SiteName := name site, URL := url site, Port := port site,
               Status := ''ERROR'', ErrorMessage := msg_fetch_failed @ err\<rparr>
         | Connected certs \<Rightarrow>
             (case certs of
                [] \<Rightarrow>
                  CertInfo_zero\<lparr>SiteName := name site, URL := url site, Port := port site,
                    Status := ''ERROR'', ErrorMessage := msg_no_certificate\<rparr>
              | cert # _ \<Rightarrow>
                  let now = time_now env;
                      days = daysRemaining (CertNotAfter cert) now;
                      status = classify days (WarningDays (Alert config))
                                 (CriticalDays (Alert config));
                      issuer = (if length (IssuerOrganization cert) = 0
                                then [IssuerCommonName cert] else IssuerOrganization cert);
                      issuerStr0 = strings_Join issuer '', '';
                      issuerStr = (if issuerStr0 = [] then ''Unknown'' else issuerStr0)
                  in CertInfo_zero\<lparr>SiteName := name site, URL := url site, Port := port site,
                       Issuer := issuerStr, Subject := SubjectCommonName cert,
                       NotBefore := CertNotBefore cert, NotAfter := CertNotAfter cert,
                       DaysRemaining := days, Status := status\<rparr>))"

section \<open>The scan (main.go, lines 176-188)\<close>

text \<open>
  The loop of \<open>checkAllSites\<close>, appending one result per site. \<open>world k\<close> is what the
  world answers to the probe number \<open>k\<close> of the run.
\<close>

fun checkAllSites_loop ::
  "Config \<Rightarrow> (nat \<Rightarrow> probe_env) \<Rightarrow> nat \<Rightarrow> Site list \<Rightarrow> CertInfo list \<Rightarrow> CertInfo list" where
  "checkAllSites_loop config world k [] results = results"
| "checkAllSites_loop config world k (site # sites) results =
     checkAllSites_loop config world (Suc k) sites
       (results @ [checkCertificate config site (world k)])"

definition checkAllSites :: "Config \<Rightarrow> (nat \<Rightarrow> probe_env) \<Rightarrow> CertInfo list" where
  "checkAllSites config world = checkAllSites_loop config world 0 (Sites config) []"

section \<open>The exit code (main.go, lines 130-140)\<close>

text \<open>The loop with its \<open>break\<close>, and the exit status of the process: \<open>os.Exit(1)\<close>, or
  \<open>0\<close> when \<open>main\<close> returns.\<close>

fun hasIssues :: "CertInfo list \<Rightarrow> bool" where
  "hasIssues [] = False"
| "hasIssues (result # results) =
     (if Status result = ''WARNING'' \<or> Status result = ''CRITICAL'' \<or> Status result = ''ERROR''
      then True else hasIssues results)"

definition exit_code :: "CertInfo list \<Rightarrow> int" where
  "exit_code results = (if hasIssues results then 1 else 0)"

section \<open>The HTML report (main.go, lines 306-371)\<close>

text \<open>
  \<open>strings.ToLower\<close> on ASCII text (every status the probe produces is ASCII): the letters
  \<open>A\<close> to \<open>Z\<close> become \<open>a\<close> to \<open>z\<close>.
\<close>

definition to_lower_char :: "char \<Rightarrow> char" where
  "to_lower_char c =
     (let n = of_char c :: nat in if 65 \<le> n \<and> n \<le> 90 then char_of (n + 32) else c)"

definition strings_ToLower :: "string \<Rightarrow> string" where
  "strings_ToLower s = map to_lower_char s"

text \<open>
  The four raw string literals of \<open>generateHTMLReport\<close> with their verbs filled in; bytes
  outside ASCII are written by their codes. \<open>checkTime\<close> is the formatted time of the
  report and \<open>format_date t\<close> is \<open>t.In(JST).Format("2006-01-02")\<close>.
\<close>

definition html_header :: "string \<Rightarrow> string" where
  "html_header checkTime =
     ''<html>\<newline>'' @
     ''<head>\<newline>'' @
     ''    <meta charset='' @ [CHR 0x22] @ ''UTF-8'' @ [CHR 0x22] @ ''>\<newline>'' @
     ''    <style>\<newline>'' @
     ''        body { font-family: Arial, sans-serif; margin: 20px; }\<newline>'' @
     ''        h1 { color: #333; }\<newline>'' @
     ''        table { border-collapse: collapse; width: 100%; margin-top: 20px; }\<newline>'' @
     ''        th, td { border: 1px solid #ddd; padding: 12px; text-align: left; }\<newline>'' @
     ''        th { background-color: #4CAF50; color: white; }\<newline>'' @
     ''        tr:nth-child(even) { background-color: #f2f2f2; }\<newline>'' @
     ''        .ok { color: green; font-weight: bold; }\<newline>'' @
     ''        .warning { color: orange; font-weight: bold; }\<newline>'' @
     ''        .critical { color: red; font-weight: bold; }\<newline>'' @
     ''        .error { color: darkred; font-weight: bold; }\<newline>'' @
     ''    </style>\<newline>'' @
     ''</head>\<newline>'' @
     ''<body>\<newline>'' @
     ''    <h1>SSL'' @ [CHR 0xE8, CHR 0xA8, CHR 0xBC, CHR 0xE6, CHR 0x98, CHR 0x8E,
       CHR 0xE6, CHR 0x9B, CHR 0xB8, CHR 0xE6, CHR 0x9C, CHR 0x89, CHR 0xE5, CHR 0x8A,
       CHR 0xB9, CHR 0xE6, CHR 0x9C, CHR 0x9F, CHR 0xE9, CHR 0x99, CHR 0x90, CHR 0xE3,
       CHR 0x83, CHR 0x81, CHR 0xE3, CHR 0x82, CHR 0xA7, CHR 0xE3, CHR 0x83, CHR 0x83,
       CHR 0xE3, CHR 0x82, CHR 0xAF, CHR 0xE7, CHR 0xB5, CHR 0x90, CHR 0xE6, CHR 0x9E,
       CHR 0x9C] @ ''</h1>\<newline>'' @
     ''    <p>'' @ [CHR 0xE3, CHR 0x83, CHR 0x81, CHR 0xE3, CHR 0x82, CHR 0xA7, CHR 0xE3,
       CHR 0x83, CHR 0x83, CHR 0xE3, CHR 0x82, CHR 0xAF, CHR 0xE6, CHR 0x97, CHR 0xA5,
       CHR 0xE6, CHR 0x99, CHR 0x82] @ '': '' @
     checkTime @
     ''</p>\<newline>'' @
     ''    <table>\<newline>'' @
     ''        <tr>\<newline>'' @
     ''            <th>'' @ [CHR 0xE3, CHR 0x82, CHR 0xB5, CHR 0xE3, CHR 0x82, CHR 0xA4,
       CHR 0xE3, CHR 0x83, CHR 0x88, CHR 0xE5, CHR 0x90, CHR 0x8D] @ ''</th>\<newline>'' @
     ''            <th>URL</th>\<newline>'' @
     ''            <th>'' @ [CHR 0xE7, CHR 0x99, CHR 0xBA, CHR 0xE8, CHR 0xA1, CHR 0x8C,
       CHR 0xE8, CHR 0x80, CHR 0x85] @ ''</th>\<newline>'' @
     ''            <th>'' @ [CHR 0xE6, CHR 0x9C, CHR 0x89, CHR 0xE5, CHR 0x8A, CHR 0xB9,
       CHR 0xE6, CHR 0x9C, CHR 0x9F, CHR 0xE9, CHR 0x99, CHR 0x90] @ ''</th>\<newline>'' @
     ''            <th>'' @ [CHR 0xE6, CHR 0xAE, CHR 0x8B, CHR 0xE3, CHR 0x82, CHR 0x8A,
       CHR 0xE6, CHR 0x97, CHR 0xA5, CHR 0xE6, CHR 0x95, CHR 0xB0] @ ''</th>\<newline>'' @
     ''            <th>'' @ [CHR 0xE3, CHR 0x82, CHR 0xB9, CHR 0xE3, CHR 0x83, CHR 0x86,
       CHR 0xE3, CHR 0x83, CHR 0xBC, CHR 0xE3, CHR 0x82, CHR 0xBF, CHR 0xE3, CHR 0x82,
       CHR 0xB9] @ ''</th>\<newline>'' @
     ''        </tr>\<newline>''"

definition html_row_ok :: "(go_time \<Rightarrow> string) \<Rightarrow> CertInfo \<Rightarrow> string \<Rightarrow> string" where
  "html_row_ok format_date cert statusClass =
     ''        <tr>\<newline>'' @
     ''            <td>'' @
     SiteName cert @
     ''</td>\<newline>'' @
     ''            <td>'' @
     URL cert @
     '':'' @
     show_int (Port cert) @
     ''</td>\<newline>'' @
     ''            <td>'' @
     Issuer cert @
     ''</td>\<newline>'' @
     ''            <td>'' @
     format_date (NotAfter cert) @
     '' JST</td>\<newline>'' @
     ''            <td>'' @
     show_int (DaysRemaining cert) @
     [CHR 0xE6, CHR 0x97, CHR 0xA5] @ ''</td>\<newline>'' @
     ''            <td class='' @ [CHR 0x22] @
     statusClass @
     [CHR 0x22] @ ''>'' @
     Status cert @
     ''</td>\<newline>'' @
     ''        </tr>\<newline>''"

definition html_row_error :: "CertInfo \<Rightarrow> string \<Rightarrow> string" where
  "html_row_error cert statusClass =
     ''        <tr>\<newline>'' @
     ''            <td>'' @
     SiteName cert @
     ''</td>\<newline>'' @
     ''            <td>'' @
     URL cert @
     '':'' @
     show_int (Port cert) @
     ''</td>\<newline>'' @
     ''            <td colspan='' @ [CHR 0x22] @ ''3'' @ [CHR 0x22] @ ''>'' @
     ErrorMessage cert @
     ''</td>\<newline>'' @
     ''            <td class='' @ [CHR 0x22] @
     statusClass @
     [CHR 0x22] @ ''>'' @
     Status cert @
     ''</td>\<newline>'' @
     ''        </tr>\<newline>''"

definition html_footer :: "string" where
  "html_footer =
     ''    </table>\<newline>'' @
     ''</body>\<newline>'' @
     ''</html>''"


text \<open>The body of the loop: the text that \<open>html +=\<close> appends for one result.\<close>

definition html_row :: "(go_time \<Rightarrow> string) \<Rightarrow> CertInfo \<Rightarrow> string" where
  "html_row format_date cert =
     (let statusClass = strings_ToLower (Status cert) in
      if Status cert \<noteq> ''ERROR'' then html_row_ok format_date cert statusClass
      else html_row_error cert statusClass)"

fun html_rows :: "(go_time \<Rightarrow> string) \<Rightarrow> CertInfo list \<Rightarrow> string \<Rightarrow> string" where
  "html_rows format_date [] html = html"
| "html_rows format_date (cert # results) html =
     html_rows format_date results (html @ html_row format_date cert)"

definition generateHTMLReport ::
  "(go_time \<Rightarrow> string) \<Rightarrow> string \<Rightarrow> CertInfo list \<Rightarrow> string" where
  "generateHTMLReport format_date checkTime results =
     html_rows format_date results (html_header checkTime) @ html_footer"

section \<open>The webhook notification (main.go, lines 468-588)\<close>

subsection \<open>The filter (lines 481-496)\<close>

text \<open>The inner loop over \<open>notifyOn\<close>, which stops at the first status that matches.\<close>

fun notify_match :: "string \<Rightarrow> string list \<Rightarrow> bool" where
  "notify_match s [] = False"
| "notify_match s (status # rest) = (if s = status then True else notify_match s rest)"

fun filter_loop :: "string list \<Rightarrow> CertInfo list \<Rightarrow> CertInfo list \<Rightarrow> CertInfo list" where
  "filter_loop notifyOn [] filteredResults = filteredResults"
| "filter_loop notifyOn (result # results) filteredResults =
     filter_loop notifyOn results
       (if notify_match (Status result) notifyOn then filteredResults @ [result]
        else filteredResults)"

definition filterResults :: "string list \<Rightarrow> CertInfo list \<Rightarrow> CertInfo list" where
  "filterResults notifyOn results =
     (if length notifyOn > 0 then filter_loop notifyOn results [] else results)"

subsection \<open>The payload (lines 503-566)\<close>

record EmbedField =
  Name :: string
  Value :: string
  Inline :: bool

record Embed =
  Title :: string
  Color :: int
  Fields :: "EmbedField list"
  Timestamp :: string

record Payload =
  Username :: string
  Embeds :: "Embed list"

text \<open>A Go map read at a missing key gives the zero value.\<close>

definition colorMap :: "string \<Rightarrow> int" where
  "colorMap s =
     (case map_of [(''OK'', 0x00FF00), (''WARNING'', 0xFFA500), (''CRITICAL'', 0xFF0000),
                   (''ERROR'', 0x8B0000)] s of
        None \<Rightarrow> 0 | Some c \<Rightarrow> c)"

text \<open>The UTF-8 bytes of the Japanese field names, title prefix and sender name.\<close>

definition label_status :: string where
  "label_status =
     [CHR 0xE3, CHR 0x82, CHR 0xB9, CHR 0xE3, CHR 0x83, CHR 0x86, CHR 0xE3, CHR 0x83,
       CHR 0xBC, CHR 0xE3, CHR 0x82, CHR 0xBF, CHR 0xE3, CHR 0x82, CHR 0xB9]"

text \<open>Field name of the day count.\<close>

definition label_days :: string where
  "label_days =
     [CHR 0xE6, CHR 0xAE, CHR 0x8B, CHR 0xE3, CHR 0x82, CHR 0x8A, CHR 0xE6, CHR 0x97,
       CHR 0xA5, CHR 0xE6, CHR 0x95, CHR 0xB0]"

text \<open>Field name of the issuer.\<close>

definition label_issuer :: string where
  "label_issuer =
     [CHR 0xE7, CHR 0x99, CHR 0xBA, CHR 0xE8, CHR 0xA1, CHR 0x8C, CHR 0xE8, CHR 0x80, CHR 0x85]"

text \<open>Field name of the expiry.\<close>

definition label_expiry :: string where
  "label_expiry =
     [CHR 0xE6, CHR 0x9C, CHR 0x89, CHR 0xE5, CHR 0x8A, CHR 0xB9, CHR 0xE6, CHR 0x9C,
       CHR 0x9F, CHR 0xE9, CHR 0x99, CHR 0x90]"

text \<open>Field name of the error message.\<close>

definition label_error :: string where
  "label_error =
     [CHR 0xE3, CHR 0x82, CHR 0xA8, CHR 0xE3, CHR 0x83, CHR 0xA9, CHR 0xE3, CHR 0x83, CHR 0xBC]"

text \<open>The suffix after \<open>%d\<close>.\<close>

definition label_day_suffix :: string where
  "label_day_suffix =
     [CHR 0xE6, CHR 0x97, CHR 0xA5]"

text \<open>The lock emoji and a space, before the site name.\<close>

definition title_prefix :: string where
  "title_prefix =
     [CHR 0xF0, CHR 0x9F, CHR 0x94, CHR 0x92] @ '' ''"

text \<open>The \<open>Username\<close> of the payload.\<close>

definition sender_name :: string where
  "sender_name =
     ''SSL'' @ [CHR 0xE8, CHR 0xA8, CHR 0xBC, CHR 0xE6, CHR 0x98, CHR 0x8E, CHR 0xE6,
       CHR 0x9B, CHR 0xB8, CHR 0xE3, CHR 0x83, CHR 0x81, CHR 0xE3, CHR 0x82, CHR 0xA7,
       CHR 0xE3, CHR 0x83, CHR 0x83, CHR 0xE3, CHR 0x82, CHR 0xAB, CHR 0xE3, CHR 0x83,
       CHR 0xBC]"

text \<open>The text before \<open>%v\<close> in the error of a failed \<open>json.Marshal\<close> (line 571).\<close>

definition msg_marshal_failed :: string where
  "msg_marshal_failed =
     ''JSON'' @ [CHR 0xE3, CHR 0x81, CHR 0xAE, CHR 0xE3, CHR 0x83, CHR 0x9E, CHR 0xE3,
       CHR 0x83, CHR 0xBC, CHR 0xE3, CHR 0x82, CHR 0xB7, CHR 0xE3, CHR 0x83, CHR 0xA3,
       CHR 0xE3, CHR 0x83, CHR 0xAB, CHR 0xE3, CHR 0x81, CHR 0xAB, CHR 0xE5, CHR 0xA4,
       CHR 0xB1, CHR 0xE6, CHR 0x95, CHR 0x97] @ '': ''"

text \<open>The text before \<open>%v\<close> in the error of a failed \<open>http.Post\<close> (line 577).\<close>

definition msg_post_failed :: string where
  "msg_post_failed =
     ''Discord'' @ [CHR 0xE9, CHR 0x80, CHR 0x9A, CHR 0xE7, CHR 0x9F, CHR 0xA5, CHR 0xE3,
       CHR 0x81, CHR 0xAE, CHR 0xE9, CHR 0x80, CHR 0x81, CHR 0xE4, CHR 0xBF, CHR 0xA1,
       CHR 0xE3, CHR 0x81, CHR 0xAB, CHR 0xE5, CHR 0xA4, CHR 0xB1, CHR 0xE6, CHR 0x95,
       CHR 0x97] @ '': ''"

text \<open>
  What the dispatcher needs from the world: \<open>json.Marshal\<close> (an error text or the bytes),
  \<open>http.Post\<close> (a transport error or the response's status code), the formatted expiry
  \<open>t.In(JST).Format("2006-01-02 15:04:05")\<close> and the RFC 3339 text of \<open>time.Now()\<close> when the
  embed number \<open>k\<close> is built.
\<close>

datatype post_result = PostError string | Response int

record http_request =
  req_url :: string
  req_contentType :: string
  req_body :: string

record discord_env =
  json_Marshal :: "Payload \<Rightarrow> string + string"
  http_Post :: "http_request \<Rightarrow> post_result"
  format_JST :: "go_time \<Rightarrow> string"
  now_RFC3339 :: "nat \<Rightarrow> string"

definition embed_of :: "discord_env \<Rightarrow> nat \<Rightarrow> CertInfo \<Rightarrow> Embed" where
  "embed_of env k cert =
     (let color0 = colorMap (Status cert);
          color = (if color0 = 0 then 0x808080 else color0);
          fields =
            (if Status cert \<noteq> ''ERROR'' then
               [\<lparr>Name = ''URL'', Value = URL cert @ '':'' @ show_int (Port cert), Inline = True\<rparr>,
                \<lparr>Name = label_status, Value = Status cert, Inline = True\<rparr>,
                \<lparr>Name = label_days, Value = show_int (DaysRemaining cert) @ label_day_suffix,
                 Inline = True\<rparr>,
                \<lparr>Name = label_issuer, Value = Issuer cert, Inline = False\<rparr>,
                \<lparr>Name = label_expiry, Value = format_JST env (NotAfter cert) @ '' JST'',
                 Inline = False\<rparr>]
             else
               [\<lparr>Name = ''URL'', Value = URL cert @ '':'' @ show_int (Port cert), Inline = True\<rparr>,
                \<lparr>Name = label_status, Value = Status cert, Inline = True\<rparr>,
                \<lparr>Name = label_error, Value = ErrorMessage cert, Inline = False\<rparr>])
      in \<lparr>Title = title_prefix @ SiteName cert, Color = color, Fields = fields,
          Timestamp = now_RFC3339 env k\<rparr>)"

fun embeds_loop :: "discord_env \<Rightarrow> nat \<Rightarrow> CertInfo list \<Rightarrow> Embed list \<Rightarrow> Embed list" where
  "embeds_loop env k [] embeds = embeds"
| "embeds_loop env k (cert # rest) embeds =
     embeds_loop env (Suc k) rest (embeds @ [embed_of env k cert])"

subsection \<open>The dispatcher\<close>

definition placeholder_url :: string where
  "placeholder_url = ''https://discord.com/api/webhooks/YOUR_WEBHOOK_ID/YOUR_WEBHOOK_TOKEN''"

text \<open>
  \<open>sendDiscordNotification\<close> returns its error (\<open>None\<close> is \<open>nil\<close>) and the list of the HTTP
  requests it made.
\<close>

definition sendDiscordNotification ::
  "Config \<Rightarrow> CertInfo list \<Rightarrow> discord_env \<Rightarrow> string option \<times> http_request list" where
  "sendDiscordNotification config results env =
     (if \<not> Enabled (Discord config) then (None, [])
      else
        let webhookURL = WebhookURL (Discord config) in
        if webhookURL = [] \<or> webhookURL = placeholder_url then (None, [])
        else
          let filteredResults = filterResults (NotifyOn (Discord config)) results in
          if length filteredResults = 0 then (None, [])
          else
            let payload = \<lparr>Username = sender_name,
                             Embeds = embeds_loop env 0 filteredResults []\<rparr>
            in case json_Marshal env payload of
                 Inl err \<Rightarrow> (Some (msg_marshal_failed @ err), [])
               | Inr jsonData \<Rightarrow>
                   (let request = \<lparr>req_url = webhookURL,
                                     req_contentType = ''application/json'',
                                     req_body = jsonData\<rparr>
                    in case http_Post env request of
                         PostError err \<Rightarrow> (Some (msg_post_failed @ err), [request])
                       | Response statusCode \<Rightarrow> (None, [request])))"

section \<open>Example inputs, most of them from the repository's tests (main_test.go)\<close>

text \<open>\<open>TestCheckAllSites\<close>: two sites whose names do not resolve, and a world in which every
  dial fails.\<close>

definition test_config :: Config where
  "test_config =
     \<lparr>Sites = [\<lparr>url = ''invalid-test-site-12345.com'', port = 443, name = ''Test Site 1''\<rparr>,
               \<lparr>url = ''invalid-test-site-67890.com'', port = 443, name = ''Test Site 2''\<rparr>],
      Alert = \<lparr>WarningDays = 30, CriticalDays = 7\<rparr>,
      Discord = \<lparr>Enabled = False, WebhookURL = [], NotifyOn = []\<rparr>\<rparr>"

definition world_all_fail :: "nat \<Rightarrow> probe_env" where
  "world_all_fail k = \<lparr>tls_dial = (\<lambda>address serverName. DialError ''no such host''), time_now = 0\<rparr>"

text \<open>\<open>TestSiteDefaultValues\<close>: a site with neither port nor name, and a world whose server
  presents one certificate that expires 60 days after the check.\<close>

definition test_site :: Site where
  "test_site = \<lparr>url = ''example.com'', port = 0, name = []\<rparr>"

definition test_certificate :: Certificate where
  "test_certificate =
     \<lparr>IssuerOrganization = [''Test CA''], IssuerCommonName = ''R3'',
      SubjectCommonName = ''example.com'', CertNotBefore = 1000,
      CertNotAfter = 1000 + 90 * 24 * 3600000000000\<rparr>"

definition world_one_certificate :: probe_env where
  "world_one_certificate =
     \<lparr>tls_dial = (\<lambda>address serverName.
         if address = ''example.com:443'' then Connected [test_certificate]
         else DialError ''connection refused''),
      time_now = 1000 + 30 * 24 * 3600000000000\<rparr>"

text \<open>\<open>TestSendDiscordNotificationFiltering\<close> and its siblings: the batches and the webhook
  settings of the tests, and a world whose webhook answers every POST with status 500.\<close>

definition ok_site :: CertInfo where
  "ok_site = CertInfo_zero\<lparr>SiteName := ''OK Site'', URL := ''ok.com'', Port := 443,
                Status := ''OK'', DaysRemaining := 90\<rparr>"

definition warning_site :: CertInfo where
  "warning_site = CertInfo_zero\<lparr>SiteName := ''Warning Site'', URL := ''warning.com'', Port := 443,
                Status := ''WARNING'', DaysRemaining := 20\<rparr>"

definition critical_site :: CertInfo where
  "critical_site = CertInfo_zero\<lparr>SiteName := ''Test Site'', URL := ''test.com'', Port := 443,
                Status := ''CRITICAL'', DaysRemaining := 5\<rparr>"

definition error_site :: CertInfo where
  "error_site = CertInfo_zero\<lparr>SiteName := ''Error Site'', URL := ''error.com'', Port := 443,
                Status := ''ERROR'', ErrorMessage := ''Connection timeout''\<rparr>"

text \<open>Not from the tests: two results whose texts hold HTML markup.\<close>

definition markup_ok_site :: CertInfo where
  "markup_ok_site =
     CertInfo_zero\<lparr>SiteName := ''<script>alert(1)</script>'', URL := ''a&b.example'', Port := 8443,
       Issuer := ''<i>CA</i>'', Status := ''OK'', DaysRemaining := 90\<rparr>"

definition markup_error_site :: CertInfo where
  "markup_error_site =
     CertInfo_zero\<lparr>SiteName := ''<b>Error</b> Site'', URL := ''error.com'', Port := 443,
       Status := ''ERROR'', ErrorMessage := ''dial tcp: lookup <host>: no such host''\<rparr>"

definition discord_config :: "bool \<Rightarrow> string \<Rightarrow> string list \<Rightarrow> Config" where
  "discord_config enabled webhookURL notifyOn =
     \<lparr>Sites = [], Alert = \<lparr>WarningDays = 0, CriticalDays = 0\<rparr>,
      Discord = \<lparr>Enabled = enabled, WebhookURL = webhookURL, NotifyOn = notifyOn\<rparr>\<rparr>"

definition test_webhook :: string where
  "test_webhook = ''https://discord.com/api/webhooks/test/test''"

definition webhook_answers :: "post_result \<Rightarrow> discord_env" where
  "webhook_answers answer =
     \<lparr>json_Marshal = (\<lambda>payload. Inr ''{}''), http_Post = (\<lambda>request. answer),
      format_JST = (\<lambda>t. ''2026-01-01 00:00:00''), now_RFC3339 = (\<lambda>k. ''2026-01-01T00:00:00Z'')\<rparr>"

text \<open>Not from the tests: a world in which \<open>json.Marshal\<close> fails.\<close>

definition marshal_fails :: discord_env where
  "marshal_fails =
     \<lparr>json_Marshal = (\<lambda>payload. Inl ''json: unsupported value''),
      http_Post = (\<lambda>request. Response 204),
      format_JST = (\<lambda>t. ''2026-01-01 00:00:00''), now_RFC3339 = (\<lambda>k. ''2026-01-01T00:00:00Z'')\<rparr>"

section \<open>Theorems\<close>

subsection \<open>The day count\<close>




















































subsection \<open>Classification\<close>

text \<open>
  C2, as the code has it. The first two rules hold for all thresholds. A day count above
  \<open>criticalDays\<close> and at most \<open>warningDays\<close> is \<open>WARNING\<close> when it is not negative, and a
  day count above \<open>warningDays\<close> is \<open>OK\<close> when it is also above \<open>criticalDays\<close> and not
  negative: the branches are tried in order and the first that matches decides.
\<close>

theorem classify_rules:
  "(d < 0 \<longrightarrow> classify d w c = ''CRITICAL'') \<and>
   (0 \<le> d \<and> d \<le> c \<longrightarrow> classify d w c = ''CRITICAL'') \<and>
   (0 \<le> d \<and> c < d \<and> d \<le> w \<longrightarrow> classify d w c = ''WARNING'') \<and>
   (0 \<le> d \<and> c < d \<and> w < d \<longrightarrow> classify d w c = ''OK'')"
  by (simp add: classify_def)

theorem classify_rules_witness:
  "classify (- 1) 30 7 = ''CRITICAL'' \<and> classify 5 30 7 = ''CRITICAL'' \<and>
   classify 7 30 7 = ''CRITICAL'' \<and> classify 20 30 7 = ''WARNING'' \<and>
   classify 30 30 7 = ''WARNING'' \<and> classify 60 30 7 = ''OK''"
  using classify_rules [of "- 1" 30 7] classify_rules [of 5 30 7] classify_rules [of 7 30 7]
    classify_rules [of 20 30 7] classify_rules [of 30 30 7] classify_rules [of 60 30 7]
  by simp

text \<open>
  C2 as stated fails: with \<open>warningDays = 5\<close> and \<open>criticalDays = 10\<close> the day count \<open>7\<close> is
  above \<open>warningDays\<close> and is \<open>CRITICAL\<close>, not \<open>OK\<close>.
\<close>

theorem classify_above_warning_counterexample:
  "\<not> (\<forall>d w c. w < d \<longrightarrow> classify d w c = ''OK'')"
proof
  assume "\<forall>d w c. w < d \<longrightarrow> classify d w c = ''OK''"
  then have "(5::int) < 7 \<longrightarrow> classify 7 5 10 = ''OK''" by blast
  then show False by (simp add: classify_def)
qed

text \<open>
  C3, as the code has it: a day count equal to \<open>criticalDays\<close> is \<open>CRITICAL\<close> and the day
  count \<open>-1\<close> is \<open>CRITICAL\<close>, for all thresholds; a day count equal to \<open>warningDays\<close> is
  \<open>WARNING\<close> when \<open>warningDays\<close> is not negative and above \<open>criticalDays\<close>, and \<open>CRITICAL\<close>
  when \<open>warningDays\<close> is at most \<open>criticalDays\<close> or negative.
\<close>

theorem classify_boundary:
  "classify c w c = ''CRITICAL'' \<and> classify (- 1) w c = ''CRITICAL'' \<and>
   (0 \<le> w \<and> c < w \<longrightarrow> classify w w c = ''WARNING'') \<and>
   (w \<le> c \<or> w < 0 \<longrightarrow> classify w w c = ''CRITICAL'')"
  by (simp add: classify_def)

theorem classify_boundary_witness:
  "classify 7 30 7 = ''CRITICAL'' \<and> classify (- 1) 30 7 = ''CRITICAL'' \<and>
   classify 30 30 7 = ''WARNING'' \<and> classify 5 5 10 = ''CRITICAL'' \<and>
   classify (- 3) (- 3) (- 5) = ''CRITICAL''"
  using classify_boundary [of 7 30] classify_boundary [of 10 5] classify_boundary [of "- 5" "- 3"]
  by simp

text \<open>
  C3 as stated fails: with \<open>warningDays = 5\<close> and \<open>criticalDays = 10\<close> the day count equal to
  \<open>warningDays\<close> is \<open>CRITICAL\<close>.
\<close>

theorem classify_boundary_counterexample:
  "\<not> (\<forall>w c. classify w w c = ''WARNING'')"
proof
  assume "\<forall>w c. classify w w c = ''WARNING''"
  then have "classify 5 5 10 = ''WARNING''" by blast
  then show False by (simp add: classify_def)
qed

text \<open>
  C4: for thresholds with \<open>criticalDays \<le> warningDays\<close>, a smaller day count never has a
  less severe status than a larger one.
\<close>

theorem classify_monotone:
  assumes "c \<le> w" and "d1 \<le> d2"
  shows "severity (classify d2 w c) \<le> severity (classify d1 w c)"
  using assms by (simp add: classify_def severity_def)

theorem classify_monotone_witness:
  "(7::int) \<le> 30 \<and> (5::int) \<le> 20 \<and>
   severity (classify 20 30 7) = 1 \<and> severity (classify 5 30 7) = 2"
proof -
  have "severity (classify 20 30 7) \<le> severity (classify 5 30 7)"
    by (rule classify_monotone) simp_all
  then show ?thesis by (simp add: classify_def severity_def)
qed

subsection \<open>The scan\<close>

lemma checkAllSites_loop_eq:
  "checkAllSites_loop config world k sites results =
     results @ map (\<lambda>(i, site). checkCertificate config site (world i)) (enumerate k sites)"
  by (induction sites arbitrary: k results) simp_all

lemma checkAllSites_eq:
  "checkAllSites config world =
     map (\<lambda>(i, site). checkCertificate config site (world i)) (enumerate 0 (Sites config))"
  by (simp add: checkAllSites_def checkAllSites_loop_eq)

lemma checkCertificate_URL: "URL (checkCertificate config site env) = url site"
  by (simp add: checkCertificate_def CertInfo_zero_def Let_def split: dial_result.split list.split)

text \<open>
  C5: the batch has one result per configured site, in the order of the sites: result \<open>i\<close>
  is the probe of site \<open>i\<close> against the world's answer to probe \<open>i\<close> and carries that site's
  URL. It does not depend on the answers to the other probes, whatever they are (failures
  included): two worlds that agree on probe \<open>i\<close> give the same result \<open>i\<close>.
\<close>

theorem scan_batch:
  "length (checkAllSites config world) = length (Sites config) \<and>
   (\<forall>i < length (Sites config).
      checkAllSites config world ! i = checkCertificate config (Sites config ! i) (world i) \<and>
      URL (checkAllSites config world ! i) = url (Sites config ! i) \<and>
      (world' i = world i \<longrightarrow> checkAllSites config world' ! i = checkAllSites config world ! i))"
  by (simp add: checkAllSites_eq checkCertificate_URL nth_enumerate_eq)

text \<open>The two sites of \<open>TestCheckAllSites\<close>, with every probe failing.\<close>

theorem scan_batch_witness:
  "length (checkAllSites test_config world_all_fail) = 2 \<and>
   map Status (checkAllSites test_config world_all_fail) = [''ERROR'', ''ERROR''] \<and>
   map SiteName (checkAllSites test_config world_all_fail) = [''Test Site 1'', ''Test Site 2''] \<and>
   map URL (checkAllSites test_config world_all_fail) =
     [''invalid-test-site-12345.com'', ''invalid-test-site-67890.com'']"
proof -
  have n: "length (Sites test_config) = 2" by (simp add: test_config_def)
  have l: "length (checkAllSites test_config world_all_fail) = 2"
    using scan_batch [of test_config world_all_fail] n by simp
  have "checkAllSites test_config world_all_fail ! 0 =
      checkCertificate test_config (Sites test_config ! 0) (world_all_fail 0)"
    using scan_batch [of test_config world_all_fail world_all_fail] n by simp
  moreover have "checkAllSites test_config world_all_fail ! 1 =
      checkCertificate test_config (Sites test_config ! 1) (world_all_fail 1)"
    using scan_batch [of test_config world_all_fail world_all_fail] n by simp
  ultimately have "checkAllSites test_config world_all_fail =
      [checkCertificate test_config (Sites test_config ! 0) (world_all_fail 0),
       checkCertificate test_config (Sites test_config ! 1) (world_all_fail 1)]"
    using l by (simp add: list_eq_iff_nth_eq less_Suc_eq numeral_2_eq_2)
  then show ?thesis
    by (simp add: test_config_def world_all_fail_def checkCertificate_def CertInfo_zero_def)
qed

subsection \<open>The exit code\<close>

lemma hasIssues_iff:
  "hasIssues results \<longleftrightarrow>
     (\<exists>r \<in> set results. Status r = ''WARNING'' \<or> Status r = ''CRITICAL'' \<or> Status r = ''ERROR'')"
  by (induction results) auto

text \<open>
  C6: the exit code is \<open>0\<close> when every result is \<open>OK\<close> (and for the empty batch), and \<open>1\<close>
  when some result is \<open>WARNING\<close>, \<open>CRITICAL\<close> or \<open>ERROR\<close>.
\<close>

theorem exit_code_rule:
  "exit_code [] = 0 \<and>
   ((\<forall>r \<in> set results. Status r = ''OK'') \<longrightarrow> exit_code results = 0) \<and>
   ((\<exists>r \<in> set results. Status r = ''WARNING'' \<or> Status r = ''CRITICAL'' \<or> Status r = ''ERROR'')
      \<longrightarrow> exit_code results = 1)"
  by (auto simp: exit_code_def hasIssues_iff)

theorem exit_code_rule_witness:
  "exit_code [ok_site, ok_site] = 0 \<and> exit_code [ok_site, warning_site] = 1 \<and>
   exit_code [critical_site] = 1 \<and> exit_code [ok_site, ok_site, error_site] = 1"
  using exit_code_rule [of "[ok_site, ok_site]"] exit_code_rule [of "[ok_site, warning_site]"]
    exit_code_rule [of "[critical_site]"] exit_code_rule [of "[ok_site, ok_site, error_site]"]
  by (simp add: ok_site_def warning_site_def critical_site_def error_site_def CertInfo_zero_def)

subsection \<open>The webhook filter\<close>

lemma notify_match_iff: "notify_match s notifyOn \<longleftrightarrow> s \<in> set notifyOn"
  by (induction notifyOn) auto

lemma filter_loop_eq:
  "filter_loop notifyOn results acc = acc @ filter (\<lambda>r. Status r \<in> set notifyOn) results"
  by (induction results arbitrary: acc) (simp_all add: notify_match_iff)

text \<open>
  C7: with an empty policy the filtered set is the whole batch; otherwise it is the batch
  restricted to the results whose status occurs in the policy: each of them once (also when
  the policy names a status twice), in the order of the batch.
\<close>

theorem filterResults_eq:
  "filterResults notifyOn results =
     (if notifyOn = [] then results else filter (\<lambda>r. Status r \<in> set notifyOn) results)"
  by (simp add: filterResults_def filter_loop_eq)

text \<open>Scenarios B and C of the specification, and a policy that names a status twice.\<close>

theorem filterResults_eq_witness:
  "filterResults [''CRITICAL''] [ok_site, warning_site] = [] \<and>
   filterResults [] [ok_site, error_site] = [ok_site, error_site] \<and>
   filterResults [''ERROR'', ''WARNING'', ''ERROR'']
     [warning_site, ok_site, error_site, warning_site] =
     [warning_site, error_site, warning_site]"
  using filterResults_eq [of "[''CRITICAL'']" "[ok_site, warning_site]"]
    filterResults_eq [of "[]" "[ok_site, error_site]"]
    filterResults_eq [of "[''ERROR'', ''WARNING'', ''ERROR'']"
      "[warning_site, ok_site, error_site, warning_site]"]
  by (simp add: ok_site_def warning_site_def error_site_def CertInfo_zero_def)

subsection \<open>The webhook dispatcher\<close>

text \<open>
  C8: the dispatcher returns no error and makes no HTTP request when the webhook is
  disabled, when the URL is empty or the placeholder, and when the filtered set is empty.
  It makes at most one request; when the request gets a response, whatever its status
  code, no error is returned. An error is returned only when \<open>json.Marshal\<close> fails (no
  request made) or when the POST itself fails. Conversely, when the webhook is enabled,
  the URL is set and the filtered set is not empty: a failure of \<open>json.Marshal\<close> is
  returned as an error and no request is made; otherwise one request is made, to the
  configured URL with the marshalled bytes, and a failure of that POST is returned as an
  error, while every response gives no error.
\<close>

theorem sendDiscordNotification_outcome:
  fixes config results env
  defines "out \<equiv> sendDiscordNotification config results env"
    and "filtered \<equiv> filterResults (NotifyOn (Discord config)) results"
    and "request \<equiv> \<lambda>jsonData. \<lparr>req_url = WebhookURL (Discord config),
           req_contentType = ''application/json'', req_body = jsonData\<rparr>"
  defines "payload \<equiv> \<lparr>Username = sender_name, Embeds = embeds_loop env 0 filtered []\<rparr>"
  shows
  "(\<not> Enabled (Discord config) \<longrightarrow> out = (None, [])) \<and>
   (WebhookURL (Discord config) = [] \<or> WebhookURL (Discord config) = placeholder_url
      \<longrightarrow> out = (None, [])) \<and>
   (filtered = [] \<longrightarrow> out = (None, [])) \<and>
   length (snd out) \<le> 1 \<and>
   (\<forall>request statusCode.
      snd out = [request] \<and> http_Post env request = Response statusCode \<longrightarrow> fst out = None) \<and>
   (\<forall>e. fst out = Some e \<longrightarrow>
      (\<exists>err. json_Marshal env payload = Inl err \<and> e = msg_marshal_failed @ err \<and> snd out = []) \<or>
      (\<exists>request err. http_Post env request = PostError err \<and> e = msg_post_failed @ err \<and>
         snd out = [request])) \<and>
   (Enabled (Discord config) \<and> WebhookURL (Discord config) \<noteq> [] \<and>
    WebhookURL (Discord config) \<noteq> placeholder_url \<and> filtered \<noteq> [] \<longrightarrow>
      (\<forall>err. json_Marshal env payload = Inl err \<longrightarrow>
         out = (Some (msg_marshal_failed @ err), [])) \<and>
      (\<forall>jsonData err.
         json_Marshal env payload = Inr jsonData \<and>
         http_Post env (request jsonData) = PostError err \<longrightarrow>
         out = (Some (msg_post_failed @ err), [request jsonData])) \<and>
      (\<forall>jsonData statusCode.
         json_Marshal env payload = Inr jsonData \<and>
         http_Post env (request jsonData) = Response statusCode \<longrightarrow>
         out = (None, [request jsonData])))"
  unfolding out_def filtered_def payload_def request_def sendDiscordNotification_def
  by (auto simp: Let_def split: sum.splits post_result.splits)

theorem sendDiscordNotification_outcome_witness:
  "sendDiscordNotification (discord_config False test_webhook []) [critical_site]
     (webhook_answers (Response 204)) = (None, []) \<and>
   sendDiscordNotification (discord_config True [] []) [critical_site]
     (webhook_answers (Response 204)) = (None, []) \<and>
   sendDiscordNotification (discord_config True placeholder_url []) [critical_site]
     (webhook_answers (Response 204)) = (None, []) \<and>
   sendDiscordNotification (discord_config True test_webhook [''CRITICAL'']) [ok_site, warning_site]
     (webhook_answers (Response 204)) = (None, []) \<and>
   sendDiscordNotification (discord_config True test_webhook []) [ok_site, error_site]
     (webhook_answers (Response 500)) =
       (None, [\<lparr>req_url = test_webhook, req_contentType = ''application/json'', req_body = ''{}''\<rparr>]) \<and>
   sendDiscordNotification (discord_config True test_webhook []) [ok_site, error_site]
     (webhook_answers (PostError ''connection refused'')) =
       (Some (msg_post_failed @ ''connection refused''),
        [\<lparr>req_url = test_webhook, req_contentType = ''application/json'', req_body = ''{}''\<rparr>]) \<and>
   sendDiscordNotification (discord_config True test_webhook []) [ok_site, error_site] marshal_fails =
       (Some (msg_marshal_failed @ ''json: unsupported value''), [])"
proof -
  let ?request = "\<lparr>req_url = test_webhook, req_contentType = ''application/json'', req_body = ''{}''\<rparr>"
  let ?config = "discord_config True test_webhook []"
  have a: "sendDiscordNotification (discord_config False test_webhook []) [critical_site]
     (webhook_answers (Response 204)) = (None, [])"
    using sendDiscordNotification_outcome
      [of "discord_config False test_webhook []" "[critical_site]" "webhook_answers (Response 204)"]
    by (simp add: discord_config_def)
  have b: "sendDiscordNotification (discord_config True [] []) [critical_site]
     (webhook_answers (Response 204)) = (None, [])"
    using sendDiscordNotification_outcome
      [of "discord_config True [] []" "[critical_site]" "webhook_answers (Response 204)"]
    by (simp add: discord_config_def)
  have c: "sendDiscordNotification (discord_config True placeholder_url []) [critical_site]
     (webhook_answers (Response 204)) = (None, [])"
    using sendDiscordNotification_outcome
      [of "discord_config True placeholder_url []" "[critical_site]" "webhook_answers (Response 204)"]
    by (simp add: discord_config_def)
  have "filterResults [''CRITICAL''] [ok_site, warning_site] = []"
    by (simp add: filterResults_def ok_site_def warning_site_def CertInfo_zero_def)
  then have d: "sendDiscordNotification (discord_config True test_webhook [''CRITICAL''])
     [ok_site, warning_site] (webhook_answers (Response 204)) = (None, [])"
    using sendDiscordNotification_outcome
      [of "discord_config True test_webhook [''CRITICAL'']" "[ok_site, warning_site]"
        "webhook_answers (Response 204)"]
    by (simp add: discord_config_def)
  let ?sent = "\<lparr>req_url = WebhookURL (Discord ?config), req_contentType = ''application/json'',
                 req_body = ''{}''\<rparr>"
  have url: "WebhookURL (Discord ?config) = test_webhook"
    by (simp add: discord_config_def)
  have cfg: "Enabled (Discord ?config) \<and> WebhookURL (Discord ?config) \<noteq> [] \<and>
      WebhookURL (Discord ?config) \<noteq> placeholder_url \<and>
      filterResults (NotifyOn (Discord ?config)) [ok_site, error_site] \<noteq> []"
    by (simp add: discord_config_def test_webhook_def placeholder_url_def filterResults_def)
  note sent = sendDiscordNotification_outcome [of ?config "[ok_site, error_site]", THEN conjunct2,
      THEN conjunct2, THEN conjunct2, THEN conjunct2, THEN conjunct2, THEN conjunct2, THEN mp,
      OF cfg]
  have "sendDiscordNotification ?config [ok_site, error_site] (webhook_answers (Response 500)) =
      (None, [?sent])"
    by (rule sent [THEN conjunct2, THEN conjunct2, rule_format]) (simp add: webhook_answers_def)
  then have e: "sendDiscordNotification ?config [ok_site, error_site]
      (webhook_answers (Response 500)) = (None, [?request])"
    by (simp only: url)
  have "sendDiscordNotification ?config [ok_site, error_site]
      (webhook_answers (PostError ''connection refused'')) =
      (Some (msg_post_failed @ ''connection refused''), [?sent])"
    by (rule sent [THEN conjunct2, THEN conjunct1, rule_format]) (simp add: webhook_answers_def)
  then have f: "sendDiscordNotification ?config [ok_site, error_site]
      (webhook_answers (PostError ''connection refused'')) =
      (Some (msg_post_failed @ ''connection refused''), [?request])"
    by (simp only: url)
  have g: "sendDiscordNotification ?config [ok_site, error_site] marshal_fails =
      (Some (msg_marshal_failed @ ''json: unsupported value''), [])"
    by (rule sent [THEN conjunct1, rule_format]) (simp add: marshal_fails_def)
  from a b c d e f g show ?thesis by (simp only: simp_thms)
qed

subsection \<open>The result of a probe\<close>

lemma classify_cases:
  "classify d w c = ''OK'' \<or> classify d w c = ''WARNING'' \<or> classify d w c = ''CRITICAL''"
  by (simp add: classify_def)

lemma classify_not_ERROR: "classify d w c \<noteq> ''ERROR''"
  by (simp add: classify_def)

text \<open>
  C9: the status of a probe's result is one of the four labels; the error message is
  non-empty exactly when the status is \<open>ERROR\<close>; a result with status \<open>ERROR\<close> has the zero
  value in issuer, subject, notBefore, notAfter and daysRemaining; a result with another
  status comes from a connection that presented a certificate, and holds a non-empty
  issuer, the leaf certificate's subject common name and validity instants, and the day
  count computed from its notAfter.
\<close>

theorem checkCertificate_invariant:
  fixes config site env
  defines "r \<equiv> checkCertificate config site env"
  shows
  "(Status r = ''OK'' \<or> Status r = ''WARNING'' \<or> Status r = ''CRITICAL'' \<or> Status r = ''ERROR'') \<and>
   (ErrorMessage r \<noteq> [] \<longleftrightarrow> Status r = ''ERROR'') \<and>
   (Status r = ''ERROR'' \<longrightarrow>
      Issuer r = [] \<and> Subject r = [] \<and> NotBefore r = 0 \<and> NotAfter r = 0 \<and> DaysRemaining r = 0) \<and>
   (Status r \<noteq> ''ERROR'' \<longrightarrow>
      (\<exists>address cert certs.
         tls_dial env address (url site) = Connected (cert # certs) \<and>
         Issuer r \<noteq> [] \<and> Subject r = SubjectCommonName cert \<and>
         NotBefore r = CertNotBefore cert \<and> NotAfter r = CertNotAfter cert \<and>
         DaysRemaining r = daysRemaining (CertNotAfter cert) (time_now env)))"
proof -
  define site' where "site' = (let site1 = (if port site = 0 then site\<lparr>port := 443\<rparr> else site)
     in if name site1 = [] then site1\<lparr>name := url site1\<rparr> else site1)"
  define address where "address = url site' @ '':'' @ show_int (port site')"
  have u: "url site' = url site" by (simp add: site'_def Let_def)
  show ?thesis
  proof (cases "tls_dial env address (url site)")
    case (DialError err)
    then have "r = CertInfo_zero\<lparr>SiteName := name site', URL := url site', Port := port site',
               Status := ''ERROR'', ErrorMessage := msg_fetch_failed @ err\<rparr>"
      using u by (simp add: r_def checkCertificate_def Let_def site'_def address_def)
    then show ?thesis by (simp add: CertInfo_zero_def msg_fetch_failed_def)
  next
    case (Connected certs)
    show ?thesis
    proof (cases certs)
      case Nil
      with Connected have "r = CertInfo_zero\<lparr>SiteName := name site', URL := url site',
               Port := port site', Status := ''ERROR'', ErrorMessage := msg_no_certificate\<rparr>"
        using u by (simp add: r_def checkCertificate_def Let_def site'_def address_def)
      then show ?thesis by (simp add: CertInfo_zero_def msg_no_certificate_def)
    next
      case (Cons cert rest)
      define days where "days = daysRemaining (CertNotAfter cert) (time_now env)"
      define issuerStr0 where "issuerStr0 =
        strings_Join (if length (IssuerOrganization cert) = 0
                      then [IssuerCommonName cert] else IssuerOrganization cert) '', ''"
      from Connected Cons have "r = CertInfo_zero\<lparr>SiteName := name site', URL := url site',
          Port := port site',
          Issuer := (if issuerStr0 = [] then ''Unknown'' else issuerStr0),
          Subject := SubjectCommonName cert,
          NotBefore := CertNotBefore cert, NotAfter := CertNotAfter cert,
          DaysRemaining := days,
          Status := classify days (WarningDays (Alert config)) (CriticalDays (Alert config))\<rparr>"
        using u by (simp add: r_def checkCertificate_def Let_def site'_def address_def days_def
            issuerStr0_def)
      moreover have "tls_dial env address (url site) = Connected (cert # rest)"
        using Connected Cons by simp
      ultimately show ?thesis
        using classify_cases [of days "WarningDays (Alert config)" "CriticalDays (Alert config)"]
          classify_not_ERROR [of days "WarningDays (Alert config)" "CriticalDays (Alert config)"]
        by (auto simp: CertInfo_zero_def days_def)
    qed
  qed
qed

lemma days_30: "daysRemaining (1000 + 90 * 24 * 3600000000000) (1000 + 30 * 24 * 3600000000000) = 60"
  by code_simp

text \<open>A site with neither port nor name, probed in a world whose server presents a
  certificate with 60 days left, and in a world where the dial fails.\<close>

theorem checkCertificate_invariant_witness:
  "checkCertificate test_config test_site world_one_certificate =
     \<lparr>SiteName = ''example.com'', URL = ''example.com'', Port = 443, Issuer = ''Test CA'',
      Subject = ''example.com'', NotBefore = 1000, NotAfter = 1000 + 90 * 24 * 3600000000000,
      DaysRemaining = 60, Status = ''OK'', ErrorMessage = []\<rparr> \<and>
   checkCertificate test_config test_site (world_all_fail 0) =
     \<lparr>SiteName = ''example.com'', URL = ''example.com'', Port = 443, Issuer = [],
      Subject = [], NotBefore = 0, NotAfter = 0,
      DaysRemaining = 0, Status = ''ERROR'', ErrorMessage = msg_fetch_failed @ ''no such host''\<rparr>"
proof -
  define r where "r = checkCertificate test_config test_site world_one_certificate"
  define e where "e = checkCertificate test_config test_site (world_all_fail 0)"
  have dial: "tls_dial world_one_certificate address (url test_site) = Connected (cert # certs)
      \<Longrightarrow> cert = test_certificate" for address cert certs
    by (simp add: world_one_certificate_def split: if_splits)
  have r1: "SiteName r = ''example.com'' \<and> URL r = ''example.com'' \<and> Port r = 443 \<and>
      Issuer r = ''Test CA'' \<and> Status r \<noteq> ''ERROR''"
    by (simp add: r_def checkCertificate_def test_site_def world_one_certificate_def
        test_certificate_def CertInfo_zero_def show_int_def Let_def classify_not_ERROR)
  then obtain address cert certs where
      c: "tls_dial world_one_certificate address (url test_site) = Connected (cert # certs)"
      and f: "Subject r = SubjectCommonName cert" "NotBefore r = CertNotBefore cert"
        "NotAfter r = CertNotAfter cert"
        "DaysRemaining r = daysRemaining (CertNotAfter cert) (time_now world_one_certificate)"
      and m: "ErrorMessage r = []"
    using checkCertificate_invariant [of test_config test_site world_one_certificate]
    unfolding r_def [symmetric] by blast
  from c have "cert = test_certificate" by (rule dial)
  with f m have r2: "Subject r = ''example.com'' \<and> NotBefore r = 1000 \<and>
      NotAfter r = 1000 + 90 * 24 * 3600000000000 \<and> DaysRemaining r = 60 \<and> ErrorMessage r = []"
    using days_30 by (simp add: test_certificate_def world_one_certificate_def)
  have "Status r = classify (DaysRemaining r) 30 7"
    by (simp add: r_def checkCertificate_def test_site_def world_one_certificate_def
        test_certificate_def CertInfo_zero_def show_int_def Let_def test_config_def)
  with r2 have r3: "Status r = ''OK''" by (simp add: classify_def)
  have e1: "SiteName e = ''example.com'' \<and> URL e = ''example.com'' \<and> Port e = 443 \<and>
      Status e = ''ERROR'' \<and> ErrorMessage e = msg_fetch_failed @ ''no such host''"
    by (simp add: e_def checkCertificate_def test_site_def world_all_fail_def CertInfo_zero_def Let_def)
  then have e2: "Issuer e = [] \<and> Subject e = [] \<and> NotBefore e = 0 \<and> NotAfter e = 0 \<and>
      DaysRemaining e = 0"
    using checkCertificate_invariant [of test_config test_site "world_all_fail 0"]
    unfolding e_def [symmetric] by simp
  from r1 r2 r3 e1 e2 show ?thesis
    unfolding r_def [symmetric] e_def [symmetric] by (cases r, cases e) simp
qed

subsection \<open>The HTML report\<close>

lemma html_rows_eq:
  "html_rows format_date results html = html @ concat (map (html_row format_date) results)"
  by (induction results arbitrary: html) simp_all

lemma sublist_html_row:
  assumes "cert \<in> set results"
  shows "sublist (html_row format_date cert) (generateHTMLReport format_date checkTime results)"
proof -
  from assms obtain xs ys where "results = xs @ cert # ys"
    by (meson split_list)
  then have "generateHTMLReport format_date checkTime results =
      (html_header checkTime @ concat (map (html_row format_date) xs)) @ html_row format_date cert @
      (concat (map (html_row format_date) ys) @ html_footer)"
    by (simp add: generateHTMLReport_def html_rows_eq)
  then show ?thesis
    unfolding sublist_def by blast
qed

lemma sublist_ok_cells:
  "sublist (''<td>'' @ SiteName cert @ ''</td>'') (html_row_ok format_date cert cls)"
  "sublist (''<td>'' @ URL cert @ '':'' @ show_int (Port cert) @ ''</td>'') (html_row_ok format_date cert cls)"
  "sublist (''<td>'' @ Issuer cert @ ''</td>'') (html_row_ok format_date cert cls)"
  unfolding html_row_ok_def
  by (simp_all add: sublist_append sublist_Cons_right)

lemma sublist_error_cells:
  "sublist (''<td>'' @ SiteName cert @ ''</td>'') (html_row_error cert cls)"
  "sublist (''<td>'' @ URL cert @ '':'' @ show_int (Port cert) @ ''</td>'') (html_row_error cert cls)"
  "sublist (''<td colspan='' @ [CHR 0x22] @ ''3'' @ [CHR 0x22] @ ''>'' @ ErrorMessage cert @ ''</td>'') (html_row_error cert cls)"
  unfolding html_row_error_def
  by (simp_all add: sublist_append sublist_Cons_right)

text \<open>
  C10: the HTML report holds, for every result of the batch, the site name and the
  \<open>url:port\<close> text unchanged between \<open><td>\<close> and \<open></td>\<close>, and so the issuer of a result that
  is not an \<open>ERROR\<close> and the error message of one that is: no character of them is encoded.
\<close>

theorem html_report_verbatim:
  fixes format_date checkTime
  assumes "cert \<in> set results"
  defines "doc \<equiv> generateHTMLReport format_date checkTime results"
  shows
  "sublist (''<td>'' @ SiteName cert @ ''</td>'') doc \<and>
   sublist (''<td>'' @ URL cert @ '':'' @ show_int (Port cert) @ ''</td>'') doc \<and>
   (Status cert \<noteq> ''ERROR'' \<longrightarrow> sublist (''<td>'' @ Issuer cert @ ''</td>'') doc) \<and>
   (Status cert = ''ERROR'' \<longrightarrow>
      sublist (''<td colspan='' @ [CHR 0x22] @ ''3'' @ [CHR 0x22] @ ''>'' @ ErrorMessage cert @ ''</td>'') doc)"
proof -
  have row: "sublist (html_row format_date cert) doc"
    unfolding doc_def using assms(1) by (rule sublist_html_row)
  show ?thesis
  proof (cases "Status cert = ''ERROR''")
    case True
    then have "html_row format_date cert = html_row_error cert (strings_ToLower (Status cert))"
      by (simp add: html_row_def)
    with row show ?thesis
      using True sublist_error_cells [of cert "strings_ToLower (Status cert)"]
      by (auto intro: sublist_order.order.trans)
  next
    case False
    then have "html_row format_date cert =
        html_row_ok format_date cert (strings_ToLower (Status cert))"
      by (simp add: html_row_def)
    with row show ?thesis
      using False sublist_ok_cells [of cert format_date "strings_ToLower (Status cert)"]
      by (auto intro: sublist_order.order.trans)
  qed
qed


text \<open>A batch of two results whose texts hold \<open><\<close>, \<open>>\<close> and \<open>&\<close>.\<close>

theorem html_report_verbatim_witness:
  "sublist ''<td><script>alert(1)</script></td>''
     (generateHTMLReport (\<lambda>t. ''2026-01-01'') ''2026-01-01 09:00:00'' [markup_ok_site, markup_error_site]) \<and>
   sublist ''<td>a&b.example:8443</td>''
     (generateHTMLReport (\<lambda>t. ''2026-01-01'') ''2026-01-01 09:00:00'' [markup_ok_site, markup_error_site]) \<and>
   sublist ''<td><i>CA</i></td>''
     (generateHTMLReport (\<lambda>t. ''2026-01-01'') ''2026-01-01 09:00:00'' [markup_ok_site, markup_error_site]) \<and>
   sublist ''<td><b>Error</b> Site</td>''
     (generateHTMLReport (\<lambda>t. ''2026-01-01'') ''2026-01-01 09:00:00'' [markup_ok_site, markup_error_site]) \<and>
   sublist (''<td colspan='' @ [CHR 0x22] @ ''3'' @ [CHR 0x22] @ ''>dial tcp: lookup <host>: no such host</td>'')
     (generateHTMLReport (\<lambda>t. ''2026-01-01'') ''2026-01-01 09:00:00'' [markup_ok_site, markup_error_site])"
  using html_report_verbatim [where cert = markup_ok_site
      and results = "[markup_ok_site, markup_error_site]"
      and format_date = "\<lambda>t. ''2026-01-01''" and checkTime = "''2026-01-01 09:00:00''"]
    html_report_verbatim [where cert = markup_error_site
      and results = "[markup_ok_site, markup_error_site]"
      and format_date = "\<lambda>t. ''2026-01-01''" and checkTime = "''2026-01-01 09:00:00''"]
  by (simp add: markup_ok_site_def markup_error_site_def CertInfo_zero_def show_int_def)

end
